theory Spec2Isabelle
  imports Main "HOL-Library.Word" "HOL-Library.Sublist"
begin

section \<open>Data model of struct-create (main.go)\<close>

text \<open>
  Go strings are byte sequences; they are modelled as \<^typ>\<open>string\<close> (a list of 8-bit
  characters), so \<open>length\<close> counts bytes and \<open>p ! 0\<close> is the first byte, as in Go.
  Bytes that cannot be written inside a literal are named here.
\<close>

abbreviation NL :: char where "NL \<equiv> CHR 0x0A"
abbreviation TAB :: char where "TAB \<equiv> CHR 0x09"
abbreviation DQUOTE :: char where "DQUOTE \<equiv> CHR 0x22"
abbreviation BQUOTE :: char where "BQUOTE \<equiv> CHR 0x60"

text \<open>\<open>sql.NullInt64\<close>: a 64-bit integer with a validity flag.\<close>

record NullInt64 =
  Int64 :: "64 word"
  Valid :: bool

text \<open>\<open>type Configuration struct\<close> (main.go, lines 31-41).\<close>

record Configuration =
  Host :: string
  Port :: int
  DbUser :: string
  DbPassword :: string
  DbName :: string
  PkgName :: string
  TagLabel :: string

text \<open>\<open>type ColumnSchema struct\<close> (main.go, lines 43-53).\<close>

record ColumnSchema =
  TableName :: string
  ColumnName :: string
  IsNullable :: string
  DataType :: string
  CharacterMaximumLength :: NullInt64
  NumericPrecision :: NullInt64
  NumericScale :: NullInt64
  ColumnType :: string
  ColumnKey :: string

text \<open>
  A Go \<open>error\<close> value made by \<open>errors.New\<close> (or reported by the operating system) is
  its message. A call of a function of this program either returns, or ends the process:
  by a run-time panic (an index out of range) or by \<open>log.Fatal\<close>, which prints the error
  and exits with status 1.
\<close>

datatype go_error = ErrorString string

datatype abort = RuntimePanic | LogFatal go_error

section \<open>The type mapper: \<open>goType\<close> (main.go, lines 179-214)\<close>

text \<open>
  The function returns the triple \<open>(type name, required import, error)\<close>; a \<open>nil\<close>
  error is \<open>None\<close>. The \<open>switch\<close> compares the data type with the listed literals in
  order; a data type that matches no case leaves \<open>gt\<close> empty, which the final test turns
  into the error.
\<close>

definition goType :: "ColumnSchema \<Rightarrow> string \<times> string \<times> go_error option" where
  "goType col =
    (let requiredImport0 = (if IsNullable col = ''YES'' then ''database/sql'' else '''');
         (gt, requiredImport) =
           (if DataType col \<in> set [''varchar'', ''enum'', ''text'', ''longtext'', ''mediumtext'']
            then (if IsNullable col = ''YES'' then ''sql.NullString'' else ''string'', requiredImport0)
            else if DataType col \<in> set [''blob'', ''mediumblob'', ''longblob'']
            then (''[]byte'', requiredImport0)
            else if DataType col \<in> set [''date'', ''time'', ''datetime'', ''timestamp'']
            then (''time.Time'', ''time'')
            else if DataType col \<in> set [''tinyint'', ''smallint'', ''int'', ''mediumint'', ''bigint'']
            then (if IsNullable col = ''YES'' then ''sql.NullInt64'' else ''int64'', requiredImport0)
            else if DataType col \<in> set [''float'', ''decimal'', ''double'']
            then (if IsNullable col = ''YES'' then ''sql.NullFloat64'' else ''float64'', requiredImport0)
            else ('''', requiredImport0))
     in if gt = ''''
        then ('''', '''',
              Some (ErrorString (''No compatible datatype for '' @
                (TableName col @ ''.'' @ ColumnName col) @ '' found'')))
        else (gt, requiredImport, None))"

text \<open>The catalog data types of the mapping table of the specification, by family.\<close>

definition string_family :: "string list" where
  "string_family = [''varchar'', ''enum'', ''text'', ''longtext'', ''mediumtext'']"

definition blob_family :: "string list" where
  "blob_family = [''blob'', ''mediumblob'', ''longblob'']"

definition temporal_family :: "string list" where
  "temporal_family = [''date'', ''time'', ''datetime'', ''timestamp'']"

definition integer_family :: "string list" where
  "integer_family = [''tinyint'', ''smallint'', ''int'', ''mediumint'', ''bigint'']"

definition float_family :: "string list" where
  "float_family = [''float'', ''decimal'', ''double'']"

definition mapping_table :: "string list" where
  "mapping_table =
     string_family @ blob_family @ temporal_family @ integer_family @ float_family"

text \<open>An example column, used to instantiate the theorems below.\<close>

definition example_column :: "string \<Rightarrow> string \<Rightarrow> string \<Rightarrow> string \<Rightarrow> ColumnSchema" where
  "example_column t c n d =
     \<lparr>TableName = t, ColumnName = c, IsNullable = n, DataType = d,
      CharacterMaximumLength = \<lparr>Int64 = 0, Valid = False\<rparr>,
      NumericPrecision = \<lparr>Int64 = 0, Valid = False\<rparr>,
      NumericScale = \<lparr>Int64 = 0, Valid = False\<rparr>,
      ColumnType = d, ColumnKey = ''''\<rparr>"

section \<open>The identifier formatter: \<open>formatName\<close> (main.go, lines 170-177)\<close>

subsection \<open>The functions of Go's standard library that it calls\<close>

text \<open>
  \<open>strings.Split(s, sep)\<close> for a separator of one byte: the substrings between the
  separators, in order. A string without separator, the empty string included, gives the
  one-element list of that string.
\<close>

fun Split :: "string \<Rightarrow> char \<Rightarrow> string list" where
  "Split [] sep = [[]]"
| "Split (c # s) sep =
     (if c = sep then [] # Split s sep
      else (case Split s sep of [] \<Rightarrow> [[c]] | p # ps \<Rightarrow> (c # p) # ps))"

text \<open>
  \<open>strings.Replace(s, old, new, 1)\<close>: the first occurrence of \<open>old\<close> in \<open>s\<close>, if there is
  one, is replaced by \<open>new\<close>. An empty \<open>old\<close> matches at the beginning of the string.
\<close>

fun Replace1 :: "string \<Rightarrow> string \<Rightarrow> string \<Rightarrow> string" where
  "Replace1 [] old new = (if old = [] then new else [])"
| "Replace1 (c # cs) old new =
     (if prefix old (c # cs) then new @ drop (length old) (c # cs)
      else c # Replace1 cs old new)"

text \<open>
  The conversion \<open>string(r)\<close> of an integer to a string gives the UTF-8 encoding of the
  code point \<open>r\<close>. It is only applied to a byte \<open>p[0]\<close> and to the upper-case form of such
  a code point, all below \<open>U+0800\<close>: one byte below \<open>U+0080\<close>, two bytes from there on.
\<close>

definition string_of_rune :: "nat \<Rightarrow> string" where
  "string_of_rune r =
     (if r < 128 then [char_of r]
      else [char_of (192 + r div 64), char_of (128 + r mod 64)])"

text \<open>
  \<open>unicode.ToUpper\<close> on the code points \<open>U+0000\<close> to \<open>U+00FF\<close>: the ASCII letters, the
  Latin-1 letters \<open>U+00E0\<close> to \<open>U+00FE\<close> (but not the division sign \<open>U+00F7\<close>), the micro
  sign \<open>U+00B5\<close> (to \<open>U+039C\<close>) and \<open>U+00FF\<close> (to \<open>U+0178\<close>) have an upper-case form; every
  other code point of the range is its own.
\<close>

definition unicode_ToUpper :: "nat \<Rightarrow> nat" where
  "unicode_ToUpper r =
     (if 97 \<le> r \<and> r \<le> 122 then r - 32
      else if r = 181 then 924
      else if (224 \<le> r \<and> r \<le> 246) \<or> (248 \<le> r \<and> r \<le> 254) then r - 32
      else if r = 255 then 376
      else r)"

text \<open>
  \<open>strings.ToUpper\<close> maps \<open>unicode.ToUpper\<close> over the code points of its argument; on the
  one-code-point string \<open>string(b)\<close> of a byte \<open>b\<close>, the only argument it gets here, that
  is the encoding of the upper-case form of the code point \<open>b\<close>.
\<close>

definition ToUpper_string_of_byte :: "char \<Rightarrow> string" where
  "ToUpper_string_of_byte b = string_of_rune (unicode_ToUpper (of_char b))"

subsection \<open>The function\<close>

text \<open>
  The loop over \<open>parts\<close>, with the accumulator \<open>newName\<close>. Reading \<open>p[0]\<close> of an empty
  part is an index out of range: the run-time panics.
\<close>

fun formatName_loop :: "string \<Rightarrow> string list \<Rightarrow> abort + string" where
  "formatName_loop newName [] = Inr newName"
| "formatName_loop newName (p # parts) =
     (case p of
        [] \<Rightarrow> Inl RuntimePanic
      | p0 # _ \<Rightarrow>
          formatName_loop
            (newName @ Replace1 p (string_of_rune (of_char p0)) (ToUpper_string_of_byte p0))
            parts)"

definition formatName :: "string \<Rightarrow> abort + string" where
  "formatName name = formatName_loop '''' (Split name CHR ''_'')"

subsection \<open>What the specification says of it\<close>

text \<open>
  The words of the specification, to compare the function with: a name made of the
  segments \<open>segs\<close> is the segments joined by underscores; the formatted name is the
  segments, the first character of each in upper case, joined by nothing. The upper case
  of an ASCII letter is the letter 32 places before it; a byte that is not a lower-case
  ASCII letter is kept.
\<close>

fun underscore_join :: "string list \<Rightarrow> string" where
  "underscore_join [] = []"
| "underscore_join [p] = p"
| "underscore_join (p # q # ps) = p @ CHR ''_'' # underscore_join (q # ps)"

definition ascii_upper :: "char \<Rightarrow> char" where
  "ascii_upper c =
     (if 97 \<le> (of_char c :: nat) \<and> (of_char c :: nat) \<le> 122
      then char_of ((of_char c :: nat) - 32) else c)"

definition capitalize :: "string \<Rightarrow> string" where
  "capitalize p = (case p of [] \<Rightarrow> [] | c # cs \<Rightarrow> ascii_upper c # cs)"

section \<open>The struct emitter: \<open>writeStructs\<close> (main.go, lines 55-129)\<close>

subsection \<open>Process state and environment\<close>

text \<open>
  The package variables that \<open>writeStructs\<close> reads: \<open>config\<close> and the flag \<open>*output\<close>
  (here \<open>output_flag\<close>); and the value \<open>defaults\<close> (lines 16-29).
\<close>

record globals =
  config :: Configuration
  output_flag :: string

definition defaults :: Configuration where
  "defaults =
     \<lparr>Host = ''localhost'', Port = 3306, DbUser = ''db_user'', DbPassword = ''db_pw'',
      DbName = ''bd_name'', PkgName = ''DbStructs'', TagLabel = ''db''\<rparr>"

text \<open>
  The output sinks: the bytes written to standard output so far, and the files by name.
\<close>

record world =
  stdout :: string
  files :: "string \<Rightarrow> string option"

text \<open>
  What the program does not decide: the order in which \<open>range\<close> visits the keys of a map
  (each key once, in an order Go leaves open), as a function from the list that holds the
  keys to the list of the keys in the order of the visit; and whether \<open>os.Create\<close> of a
  path fails.
\<close>

record environment =
  rangeOrder :: "string list \<Rightarrow> string list"
  osCreate :: "string \<Rightarrow> go_error option"

definition valid_rangeOrder :: "(string list \<Rightarrow> string list) \<Rightarrow> bool" where
  "valid_rangeOrder f = (\<forall>ks. distinct ks \<longrightarrow> distinct (f ks) \<and> set (f ks) = set ks)"

subsection \<open>The loop over the columns (lines 58-88)\<close>

text \<open>
  The variables of the loop. The map \<open>neededImports\<close> only ever holds the value \<open>true\<close>:
  it is the set of its keys, kept as a list without repetition, the latest key first.
\<close>

record loop_state =
  buffer :: string
  currentTable :: string
  neededImports :: "string list"

text \<open>
  One iteration (lines 62-86). The import is recorded before the error is tested; the
  calls of \<open>formatName\<close> may panic, and an error of \<open>goType\<close> ends the process in
  \<open>log.Fatal\<close>.
\<close>

definition writeStructs_step :: "Configuration \<Rightarrow> loop_state \<Rightarrow> ColumnSchema \<Rightarrow> abort + loop_state" where
  "writeStructs_step cfg st cs =
     (case (if TableName cs \<noteq> currentTable st
            then (case formatName (TableName cs) of
                    Inl a \<Rightarrow> Inl a
                  | Inr n \<Rightarrow>
                      Inr ((if currentTable st \<noteq> '''' then buffer st @ ''}'' @ [NL, NL]
                            else buffer st) @
                           ''type '' @ n @ '' struct{'' @ [NL]))
            else Inr (buffer st)) of
        Inl a \<Rightarrow> Inl a
      | Inr buf1 \<Rightarrow>
          (case goType cs of
             (gt, requiredImport, err) \<Rightarrow>
               (let imports = (if requiredImport \<noteq> ''''
                               then List.insert requiredImport (neededImports st)
                               else neededImports st)
                in case err of
                     Some e \<Rightarrow> Inl (LogFatal e)
                   | None \<Rightarrow>
                       (case formatName (ColumnName cs) of
                          Inl a \<Rightarrow> Inl a
                        | Inr f \<Rightarrow>
                            (let buf2 = buf1 @ [TAB] @ f @ '' '' @ gt;
                                 buf3 = (if length (TagLabel cfg) > 0
                                         then buf2 @ [TAB, BQUOTE] @ TagLabel cfg @ '':'' @
                                              [DQUOTE] @ ColumnName cs @ [DQUOTE, BQUOTE]
                                         else buf2)
                             in Inr \<lparr>buffer = buf3 @ [NL], currentTable = TableName cs,
                                     neededImports = imports\<rparr>)))))"

fun writeStructs_loop :: "Configuration \<Rightarrow> loop_state \<Rightarrow> ColumnSchema list \<Rightarrow> abort + loop_state" where
  "writeStructs_loop cfg st [] = Inr st"
| "writeStructs_loop cfg st (cs # schemas) =
     (case writeStructs_step cfg st cs of
        Inl a \<Rightarrow> Inl a
      | Inr st' \<Rightarrow> writeStructs_loop cfg st' schemas)"

subsection \<open>The header section and the whole text (lines 90-105)\<close>

text \<open>
  The buffer \<open>header\<close> as lines 93-103 make it: the package declaration and, when the
  map is not empty, the import block with one line for each key that \<open>range\<close> visits.
\<close>

definition header_section :: "Configuration \<Rightarrow> (string list \<Rightarrow> string list) \<Rightarrow> string list \<Rightarrow> string" where
  "header_section cfg ord imports =
     ''package '' @ PkgName cfg @ [NL, NL] @
     (if length imports > 0
      then ''import ('' @ [NL] @
           concat (map (\<lambda>imp. [TAB, DQUOTE] @ imp @ [DQUOTE, NL]) (ord imports)) @
           '')'' @ [NL, NL]
      else '''')"

text \<open>
  The buffer \<open>header\<close> after line 105, the text that is written: the loop has run, the
  closing brace was added to \<open>buffer\<close> (line 90), and \<open>buffer\<close> was appended to the header
  section. The process may have ended inside the loop.
\<close>

definition writeStructs_header :: "Configuration \<Rightarrow> (string list \<Rightarrow> string list) \<Rightarrow> ColumnSchema list \<Rightarrow> abort + string" where
  "writeStructs_header cfg ord schemas =
     (case writeStructs_loop cfg \<lparr>buffer = '''', currentTable = '''', neededImports = []\<rparr> schemas of
        Inl a \<Rightarrow> Inl a
      | Inr st \<Rightarrow> Inr (header_section cfg ord (neededImports st) @ (buffer st @ ''}'')))"

subsection \<open>Writing to the sink (lines 107-128)\<close>

text \<open>
  The function returns \<open>(fileLength, nil)\<close>, or the process ends before it returns; the
  second component of the result is the world after the call. A created file is
  truncated and then receives the text; the result of \<open>WriteTo\<close> is not looked at.
\<close>

definition writeStructs :: "globals \<Rightarrow> environment \<Rightarrow> world \<Rightarrow> ColumnSchema list \<Rightarrow> (abort + int \<times> go_error option) \<times> world" where
  "writeStructs g env w schemas =
     (case writeStructs_header (config g) (rangeOrder env) schemas of
        Inl a \<Rightarrow> (Inl a, w)
      | Inr header \<Rightarrow>
          (let fileLength = int (length header)
           in if fileLength > 0
              then (if output_flag g \<noteq> ''-''
                    then (case osCreate env (output_flag g) of
                            Some err \<Rightarrow> (Inl (LogFatal err), w)
                          | None \<Rightarrow>
                              (Inr (fileLength, None),
                               w\<lparr>files := (files w)(output_flag g \<mapsto> header)\<rparr>))
                    else (Inr (fileLength, None), w\<lparr>stdout := stdout w @ header\<rparr>))
              else (Inr (fileLength, None), w)))"

subsection \<open>What the specification says of the text\<close>

text \<open>
  The aux imports of a run: the non-empty import names that \<open>goType\<close> returns for the
  columns of the input.
\<close>

definition aux_imports :: "ColumnSchema list \<Rightarrow> string set" where
  "aux_imports schemas =
     set (filter (\<lambda>i. i \<noteq> '''') (map (\<lambda>c. fst (snd (goType c))) schemas))"

text \<open>The import block that lists the names \<open>ks\<close>; it is absent when there is none.\<close>

definition import_block :: "string list \<Rightarrow> string" where
  "import_block ks =
     (if ks = [] then ''''
      else ''import ('' @ [NL] @
           concat (map (\<lambda>k. [TAB, DQUOTE] @ k @ [DQUOTE, NL]) ks) @ '')'' @ [NL, NL])"

text \<open>
  The formatted form of a name that \<open>formatName\<close> accepts, and the text that precedes
  the field of a column whose predecessor belongs to the table \<open>prev\<close> (the empty name
  before the first column): nothing inside a table, otherwise the end of the open block,
  if there is one, and the opening of the next.
\<close>

definition formatted :: "string \<Rightarrow> string" where
  "formatted name = (case formatName name of Inl _ \<Rightarrow> '''' | Inr n \<Rightarrow> n)"

definition block_open :: "string \<Rightarrow> string \<Rightarrow> string" where
  "block_open prev table =
     (if table = prev then ''''
      else (if prev = '''' then '''' else ''}'' @ [NL, NL]) @
           ''type '' @ formatted table @ '' struct{'' @ [NL])"

text \<open>A name that \<open>formatName\<close> can read: none of its segments is empty.\<close>

definition no_empty_segment :: "string \<Rightarrow> bool" where
  "no_empty_segment name = ([] \<notin> set (Split name CHR ''_''))"

text \<open>
  The annotation of a field, the line of a field, and the type blocks of a sequence of
  columns that follows a column of the table \<open>prev\<close>: for each column the text that
  precedes its field, then its field line. The closing brace of the last block is not
  part of it.
\<close>

definition annotation :: "string \<Rightarrow> string \<Rightarrow> string" where
  "annotation tagLabel columnName =
     (if tagLabel = '''' then ''''
      else [TAB, BQUOTE] @ tagLabel @ '':'' @ [DQUOTE] @ columnName @ [DQUOTE, BQUOTE])"

definition field_line :: "Configuration \<Rightarrow> ColumnSchema \<Rightarrow> string" where
  "field_line cfg c =
     [TAB] @ formatted (ColumnName c) @ '' '' @ fst (goType c) @
     annotation (TagLabel cfg) (ColumnName c) @ [NL]"

definition type_blocks :: "Configuration \<Rightarrow> string \<Rightarrow> ColumnSchema list \<Rightarrow> string" where
  "type_blocks cfg prev schemas =
     concat (map (\<lambda>(p, c). block_open p (TableName c) @ field_line cfg c)
                 (zip (prev # map TableName schemas) schemas))"

subsection \<open>Example inputs\<close>

text \<open>
  A run with the default configuration that writes to standard output, an environment
  where \<open>range\<close> visits the keys in the order of their insertion and every file can be
  created, and a world where nothing has been written yet.
\<close>

definition example_globals :: globals where
  "example_globals = \<lparr>config = defaults, output_flag = ''-''\<rparr>"

definition example_environment :: environment where
  "example_environment = \<lparr>rangeOrder = rev, osCreate = (\<lambda>_. None)\<rparr>"

definition example_world :: world where
  "example_world = \<lparr>stdout = '''', files = (\<lambda>_. None)\<rparr>"

definition example_users :: "ColumnSchema list" where
  "example_users =
     [example_column ''users'' ''name'' ''YES'' ''varchar'',
      example_column ''users'' ''created_at'' ''NO'' ''datetime'',
      example_column ''users'' ''email'' ''YES'' ''varchar'']"

definition example_unmappable :: "ColumnSchema list" where
  "example_unmappable =
     [example_column ''users'' ''id'' ''NO'' ''int'',
      example_column ''users'' ''prefs'' ''NO'' ''json'',
      example_column ''users'' ''name'' ''YES'' ''varchar'']"

definition example_orders :: "ColumnSchema list" where
  "example_orders = [example_column ''orders'' ''order_id'' ''NO'' ''int'']"

section \<open>Properties of the type mapper\<close>

lemma goType_string:
  "DataType col \<in> set string_family \<Longrightarrow>
   goType col = (if IsNullable col = ''YES'' then (''sql.NullString'', ''database/sql'', None)
                 else (''string'', '''', None))"
  by (auto simp: goType_def string_family_def)

lemma goType_integer:
  "DataType col \<in> set integer_family \<Longrightarrow>
   goType col = (if IsNullable col = ''YES'' then (''sql.NullInt64'', ''database/sql'', None)
                 else (''int64'', '''', None))"
  by (auto simp: goType_def integer_family_def)

lemma goType_float:
  "DataType col \<in> set float_family \<Longrightarrow>
   goType col = (if IsNullable col = ''YES'' then (''sql.NullFloat64'', ''database/sql'', None)
                 else (''float64'', '''', None))"
  by (auto simp: goType_def float_family_def)

lemma goType_temporal:
  "DataType col \<in> set temporal_family \<Longrightarrow> goType col = (''time.Time'', ''time'', None)"
  by (auto simp: goType_def temporal_family_def)

lemma goType_blob:
  "DataType col \<in> set blob_family \<Longrightarrow>
   goType col = (''[]byte'', if IsNullable col = ''YES'' then ''database/sql'' else '''', None)"
  by (auto simp: goType_def blob_family_def)

lemma goType_unmapped:
  "DataType col \<notin> set mapping_table \<Longrightarrow>
   goType col = ('''', '''',
     Some (ErrorString (''No compatible datatype for '' @ TableName col @ ''.'' @
       ColumnName col @ '' found'')))"
  by (simp add: goType_def mapping_table_def string_family_def blob_family_def
      temporal_family_def integer_family_def float_family_def)

text \<open>
  C1. For a column of the string family (varchar, enum, text, longtext, mediumtext), the
  integer family (tinyint, smallint, int, mediumint, bigint) or the float family (float,
  decimal, double), \<open>goType\<close> returns the nullable wrapper (\<open>sql.NullString\<close>,
  \<open>sql.NullInt64\<close>, \<open>sql.NullFloat64\<close>) with the import \<open>database/sql\<close> when
  \<open>IsNullable\<close> is \<open>YES\<close>, and the bare type (\<open>string\<close>, \<open>int64\<close>, \<open>float64\<close>) with
  no import otherwise; in both cases without error.
\<close>

theorem goType_scalar_families:
  "(DataType col \<in> set string_family \<and> IsNullable col = ''YES'' \<longrightarrow>
      goType col = (''sql.NullString'', ''database/sql'', None)) \<and>
   (DataType col \<in> set string_family \<and> IsNullable col \<noteq> ''YES'' \<longrightarrow>
      goType col = (''string'', '''', None)) \<and>
   (DataType col \<in> set integer_family \<and> IsNullable col = ''YES'' \<longrightarrow>
      goType col = (''sql.NullInt64'', ''database/sql'', None)) \<and>
   (DataType col \<in> set integer_family \<and> IsNullable col \<noteq> ''YES'' \<longrightarrow>
      goType col = (''int64'', '''', None)) \<and>
   (DataType col \<in> set float_family \<and> IsNullable col = ''YES'' \<longrightarrow>
      goType col = (''sql.NullFloat64'', ''database/sql'', None)) \<and>
   (DataType col \<in> set float_family \<and> IsNullable col \<noteq> ''YES'' \<longrightarrow>
      goType col = (''float64'', '''', None))"
  by (simp add: goType_string goType_integer goType_float)

theorem goType_scalar_families_witness:
  "goType (example_column ''users'' ''name'' ''YES'' ''varchar'') =
     (''sql.NullString'', ''database/sql'', None) \<and>
   goType (example_column ''users'' ''email'' ''NO'' ''text'') = (''string'', '''', None) \<and>
   goType (example_column ''users'' ''age'' ''YES'' ''smallint'') =
     (''sql.NullInt64'', ''database/sql'', None) \<and>
   goType (example_column ''users'' ''id'' ''NO'' ''bigint'') = (''int64'', '''', None) \<and>
   goType (example_column ''users'' ''score'' ''YES'' ''decimal'') =
     (''sql.NullFloat64'', ''database/sql'', None) \<and>
   goType (example_column ''users'' ''ratio'' ''NO'' ''double'') = (''float64'', '''', None)"
  using goType_scalar_families [of "example_column ''users'' ''name'' ''YES'' ''varchar''"]
    goType_scalar_families [of "example_column ''users'' ''email'' ''NO'' ''text''"]
    goType_scalar_families [of "example_column ''users'' ''age'' ''YES'' ''smallint''"]
    goType_scalar_families [of "example_column ''users'' ''id'' ''NO'' ''bigint''"]
    goType_scalar_families [of "example_column ''users'' ''score'' ''YES'' ''decimal''"]
    goType_scalar_families [of "example_column ''users'' ''ratio'' ''NO'' ''double''"]
  by (simp add: example_column_def string_family_def integer_family_def float_family_def)

text \<open>
  C2. The claim: temporal columns map to \<open>time.Time\<close> with the import \<open>time\<close>, and blob
  columns to \<open>[]byte\<close> with no import, whatever the nullability. The temporal half holds
  (\<open>goType_temporal\<close>). The blob case of the \<open>switch\<close> leaves \<open>requiredImport\<close> as it was
  set from \<open>IsNullable\<close> before the \<open>switch\<close>, so a nullable blob column reports the
  import \<open>database/sql\<close>, which its type \<open>[]byte\<close> does not use.
\<close>

theorem goType_nullable_blob_import:
  "goType (example_column ''files'' ''body'' ''YES'' ''blob'') =
     (''[]byte'', ''database/sql'', None)"
  by (simp add: goType_def example_column_def)

text \<open>
  C3. For a column whose data type is not in the mapping table, \<open>goType\<close> returns an
  error whose message names \<open>TableName.ColumnName\<close>, with an empty type name and an empty
  import: there is no fallback type.
\<close>

theorem goType_unsupported_type:
  "DataType col \<notin> set mapping_table \<Longrightarrow>
   goType col = ('''', '''',
     Some (ErrorString (''No compatible datatype for '' @ TableName col @ ''.'' @
       ColumnName col @ '' found'')))"
  by (rule goType_unmapped)

theorem goType_unsupported_type_witness:
  "DataType (example_column ''users'' ''prefs'' ''NO'' ''json'') \<notin> set mapping_table \<and>
   goType (example_column ''users'' ''prefs'' ''NO'' ''json'') =
     ('''', '''', Some (ErrorString ''No compatible datatype for users.prefs found''))"
proof -
  have h: "DataType (example_column ''users'' ''prefs'' ''NO'' ''json'') \<notin> set mapping_table"
    by (simp add: example_column_def mapping_table_def string_family_def blob_family_def
        temporal_family_def integer_family_def float_family_def)
  show ?thesis
    using h goType_unsupported_type [OF h] by (simp add: example_column_def)
qed

text \<open>
  C10. For a column whose data type is in the mapping table, every \<open>IsNullable\<close> value
  other than exactly \<open>YES\<close> (such as \<open>NO\<close>, the empty string or \<open>yes\<close>) gives the bare
  type, and no import outside the temporal family.
\<close>

theorem goType_not_exactly_YES:
  assumes "IsNullable col \<noteq> ''YES''"
  shows "(DataType col \<in> set string_family \<longrightarrow> goType col = (''string'', '''', None)) \<and>
         (DataType col \<in> set blob_family \<longrightarrow> goType col = (''[]byte'', '''', None)) \<and>
         (DataType col \<in> set temporal_family \<longrightarrow> goType col = (''time.Time'', ''time'', None)) \<and>
         (DataType col \<in> set integer_family \<longrightarrow> goType col = (''int64'', '''', None)) \<and>
         (DataType col \<in> set float_family \<longrightarrow> goType col = (''float64'', '''', None))"
  using assms
  by (simp add: goType_string goType_blob goType_temporal goType_integer goType_float)

theorem goType_not_exactly_YES_witness:
  "goType (example_column ''t'' ''a'' ''yes'' ''varchar'') = (''string'', '''', None) \<and>
   goType (example_column ''t'' ''b'' '''' ''longblob'') = (''[]byte'', '''', None) \<and>
   goType (example_column ''t'' ''c'' ''NO'' ''datetime'') = (''time.Time'', ''time'', None) \<and>
   goType (example_column ''t'' ''d'' ''Yes'' ''int'') = (''int64'', '''', None) \<and>
   goType (example_column ''t'' ''e'' ''NO'' ''float'') = (''float64'', '''', None)"
  using goType_not_exactly_YES [of "example_column ''t'' ''a'' ''yes'' ''varchar''"]
    goType_not_exactly_YES [of "example_column ''t'' ''b'' '''' ''longblob''"]
    goType_not_exactly_YES [of "example_column ''t'' ''c'' ''NO'' ''datetime''"]
    goType_not_exactly_YES [of "example_column ''t'' ''d'' ''Yes'' ''int''"]
    goType_not_exactly_YES [of "example_column ''t'' ''e'' ''NO'' ''float''"]
  by (simp add: example_column_def string_family_def blob_family_def temporal_family_def
      integer_family_def float_family_def)

section \<open>Properties of the identifier formatter\<close>

subsection \<open>Splitting a joined name\<close>

lemma Split_no_sep: "sep \<notin> set p \<Longrightarrow> Split p sep = [p]"
  by (induction p) auto

lemma Split_append_sep: "sep \<notin> set p \<Longrightarrow> Split (p @ sep # s) sep = p # Split s sep"
  by (induction p) auto

lemma Split_underscore_join:
  "segs \<noteq> [] \<Longrightarrow> \<forall>p\<in>set segs. CHR ''_'' \<notin> set p \<Longrightarrow>
   Split (underscore_join segs) CHR ''_'' = segs"
  by (induction segs rule: underscore_join.induct)
    (simp_all add: Split_no_sep Split_append_sep)

subsection \<open>A segment that starts with an ASCII byte\<close>

lemma string_of_rune_ascii: "of_char c < (128::nat) \<Longrightarrow> string_of_rune (of_char c) = [c]"
  by (simp add: string_of_rune_def)

lemma ToUpper_ascii: "of_char c < (128::nat) \<Longrightarrow> ToUpper_string_of_byte c = [ascii_upper c]"
  by (auto simp: ToUpper_string_of_byte_def unicode_ToUpper_def string_of_rune_def
      ascii_upper_def)

lemma Replace1_first_byte: "Replace1 (c # cs) [c] new = new @ cs"
  by simp

lemma formatName_loop_ascii:
  "\<forall>p\<in>set parts. p \<noteq> [] \<and> of_char (hd p) < (128::nat) \<Longrightarrow>
   formatName_loop acc parts = Inr (acc @ concat (map capitalize parts))"
proof (induction parts arbitrary: acc)
  case Nil
  then show ?case by simp
next
  case (Cons p parts)
  from Cons.prems obtain c cs where p: "p = c # cs" and c: "of_char c < (128::nat)"
    by (cases p) auto
  from Cons.prems have rest: "\<forall>q\<in>set parts. q \<noteq> [] \<and> of_char (hd q) < (128::nat)"
    by simp
  show ?case
    by (simp add: p string_of_rune_ascii [OF c] ToUpper_ascii [OF c] Cons.IH [OF rest]
        capitalize_def)
qed

subsection \<open>Empty segments\<close>

lemma formatName_loop_empty_segment:
  "[] \<in> set parts \<Longrightarrow> formatName_loop acc parts = Inl RuntimePanic"
  by (induction parts arbitrary: acc) (auto split: list.splits)

lemma formatName_loop_returns:
  "[] \<notin> set parts \<Longrightarrow> \<exists>r. formatName_loop acc parts = Inr r"
  by (induction parts arbitrary: acc) (auto split: list.splits)

lemma formatName_panics:
  "\<not> no_empty_segment name \<Longrightarrow> formatName name = Inl RuntimePanic"
  by (simp add: formatName_def no_empty_segment_def formatName_loop_empty_segment)

lemma formatName_returns:
  "no_empty_segment name \<Longrightarrow> formatName name = Inr (formatted name)"
  using formatName_loop_returns [of "Split name CHR ''_''" "''''"]
  by (auto simp: formatName_def no_empty_segment_def formatted_def)

text \<open>
  C4. The claim: a name with an empty segment (consecutive, leading or trailing
  underscores, or the empty name) is formatted without a crash, the empty segment adding
  nothing, so that \<open>formatName("") = ""\<close> and \<open>formatName("a__b") = "AB"\<close>. The function
  reads \<open>p[0]\<close> of every segment without testing its length: on each of these inputs,
  as on every name with an empty segment (\<open>formatName_panics\<close>), the index is out of
  range and the run-time panics.
\<close>

theorem formatName_empty_segment_panics:
  "formatName '''' = Inl RuntimePanic \<and> formatName ''a__b'' = Inl RuntimePanic \<and>
   formatName ''_id'' = Inl RuntimePanic \<and> formatName ''name_'' = Inl RuntimePanic"
  by code_simp

text \<open>
  On a name made of non-empty segments joined by underscores, each segment starting with
  an ASCII byte, \<open>formatName\<close> does what the specification says: it returns the segments
  joined by nothing, the first byte of each in upper case (a lower-case ASCII letter
  becomes the capital letter, any other ASCII byte stays) and every other byte unchanged.
  The two examples of the specification are such names.
\<close>

lemma formatName_ascii_segments:
  assumes "segs \<noteq> []"
    and "\<forall>p\<in>set segs. p \<noteq> [] \<and> CHR ''_'' \<notin> set p \<and> of_char (hd p) < (128::nat)"
  shows "formatName (underscore_join segs) = Inr (concat (map capitalize segs))"
proof -
  from assms have "Split (underscore_join segs) CHR ''_'' = segs"
    by (simp add: Split_underscore_join)
  moreover from assms(2) have "\<forall>p\<in>set segs. p \<noteq> [] \<and> of_char (hd p) < (128::nat)"
    by simp
  ultimately show ?thesis
    by (simp add: formatName_def formatName_loop_ascii)
qed

lemma formatName_ascii_examples:
  "formatName ''first_name'' = Inr ''FirstName'' \<and> formatName ''id'' = Inr ''Id''"
proof -
  have a: "[''first'', ''name''] \<noteq> []" and b: "[''id''] \<noteq> []"
    by simp_all
  have c: "\<forall>p\<in>set [''first'', ''name''].
             p \<noteq> [] \<and> CHR ''_'' \<notin> set p \<and> of_char (hd p) < (128::nat)"
    by simp
  have d: "\<forall>p\<in>set [''id'']. p \<noteq> [] \<and> CHR ''_'' \<notin> set p \<and> of_char (hd p) < (128::nat)"
    by simp
  have e: "capitalize ''first'' @ capitalize ''name'' = ''FirstName''"
    by code_simp
  have f: "capitalize ''id'' = ''Id''"
    by code_simp
  show ?thesis
    using formatName_ascii_segments [OF a c] formatName_ascii_segments [OF b d]
    by (simp add: e f)
qed

text \<open>
  C8. The claim: for every name made of non-empty segments joined by underscores, the
  result is the segments, the first character of each in upper case and every other
  character unchanged, joined by nothing. Line 174 takes the first character of a
  segment to be the byte \<open>p[0]\<close>: when that byte is not ASCII, \<open>string(p[0])\<close> is the
  two-byte encoding of the code point with the number of that byte, not the first
  character of \<open>p\<close>, and \<open>strings.Replace\<close> looks for it anywhere in \<open>p\<close>. The first
  name below is the two characters \<open>U+3042\<close> (bytes E3 81 82, a letter without upper
  case) and \<open>U+00E3\<close> (bytes C3 A3): its only segment is not empty, and the second
  character comes out as \<open>U+00C3\<close> (bytes C3 83), whether a character is read as a byte
  or as a code point. The second name is the three characters \<open>U+00E9\<close> (bytes C3 A9, a
  lower-case letter), \<open>t\<close> and \<open>U+00E9\<close>: it comes out as it is, its first character
  still in lower case.
\<close>

theorem formatName_non_ascii_first_byte:
  "[CHR 0xE3, CHR 0x81, CHR 0x82, CHR 0xC3, CHR 0xA3] \<noteq> [] \<and>
   CHR ''_'' \<notin> set [CHR 0xE3, CHR 0x81, CHR 0x82, CHR 0xC3, CHR 0xA3] \<and>
   formatName (underscore_join [[CHR 0xE3, CHR 0x81, CHR 0x82, CHR 0xC3, CHR 0xA3]]) =
     Inr [CHR 0xE3, CHR 0x81, CHR 0x82, CHR 0xC3, CHR 0x83] \<and>
   drop 3 [CHR 0xE3, CHR 0x81, CHR 0x82, CHR 0xC3, CHR 0x83] \<noteq>
     drop 3 [CHR 0xE3, CHR 0x81, CHR 0x82, CHR 0xC3, CHR 0xA3] \<and>
   drop 1 [CHR 0xE3, CHR 0x81, CHR 0x82, CHR 0xC3, CHR 0x83] \<noteq>
     drop 1 [CHR 0xE3, CHR 0x81, CHR 0x82, CHR 0xC3, CHR 0xA3] \<and>
   formatName (underscore_join [[CHR 0xC3, CHR 0xA9, CHR ''t'', CHR 0xC3, CHR 0xA9]]) =
     Inr [CHR 0xC3, CHR 0xA9, CHR ''t'', CHR 0xC3, CHR 0xA9]"
  by code_simp

section \<open>Properties of the struct emitter\<close>

subsection \<open>The type mapper on mapped and unmapped types\<close>

lemma goType_mapped_no_error:
  "DataType c \<in> set mapping_table \<Longrightarrow> snd (snd (goType c)) = None"
  by (auto simp: mapping_table_def goType_string goType_blob goType_temporal
      goType_integer goType_float)

lemma goType_unmapped_error:
  "DataType c \<notin> set mapping_table \<Longrightarrow>
   snd (snd (goType c)) =
     Some (ErrorString (''No compatible datatype for '' @ TableName c @ ''.'' @
       ColumnName c @ '' found''))"
  by (simp add: goType_unmapped)

subsection \<open>One iteration\<close>

lemma step_Inr:
  assumes "writeStructs_step cfg st cs = Inr st'"
  shows "buffer st' =
           buffer st @ block_open (currentTable st) (TableName cs) @ field_line cfg cs"
    and "currentTable st' = TableName cs"
    and "neededImports st' =
           (if fst (snd (goType cs)) \<noteq> ''''
            then List.insert (fst (snd (goType cs))) (neededImports st)
            else neededImports st)"
    and "snd (snd (goType cs)) = None"
  using assms
  by (auto simp: writeStructs_step_def block_open_def field_line_def annotation_def
      Let_def formatted_def
      split: if_splits sum.splits prod.splits option.splits)

lemma step_error:
  assumes "snd (snd (goType cs)) = Some e"
    and "no_empty_segment (TableName cs)"
  shows "writeStructs_step cfg st cs = Inl (LogFatal e)"
  using assms formatName_returns [of "TableName cs"]
  by (auto simp: writeStructs_step_def Let_def split: sum.splits prod.splits)

lemma step_returns:
  assumes "snd (snd (goType cs)) = None"
    and "no_empty_segment (TableName cs)" and "no_empty_segment (ColumnName cs)"
  shows "\<exists>st'. writeStructs_step cfg st cs = Inr st'"
  using assms formatName_returns [of "TableName cs"] formatName_returns [of "ColumnName cs"]
  by (auto simp: writeStructs_step_def Let_def split: sum.splits prod.splits)

subsection \<open>The loop\<close>

lemma type_blocks_Nil: "type_blocks cfg prev [] = ''''"
  by (simp add: type_blocks_def)

lemma type_blocks_Cons:
  "type_blocks cfg prev (c # schemas) =
     block_open prev (TableName c) @ field_line cfg c @ type_blocks cfg (TableName c) schemas"
  by (simp add: type_blocks_def)

lemma aux_imports_Cons:
  "aux_imports (c # schemas) =
     (if fst (snd (goType c)) \<noteq> '''' then {fst (snd (goType c))} else {}) \<union>
     aux_imports schemas"
  by (simp add: aux_imports_def)

lemma loop_Inr:
  "writeStructs_loop cfg st schemas = Inr st' \<Longrightarrow>
   buffer st' = buffer st @ type_blocks cfg (currentTable st) schemas \<and>
   set (neededImports st') = set (neededImports st) \<union> aux_imports schemas \<and>
   (distinct (neededImports st) \<longrightarrow> distinct (neededImports st')) \<and>
   (\<forall>c\<in>set schemas. snd (snd (goType c)) = None)"
proof (induction schemas arbitrary: st)
  case Nil
  then show ?case by (simp add: type_blocks_Nil aux_imports_def)
next
  case (Cons c schemas)
  from Cons.prems obtain st1 where
    s1: "writeStructs_step cfg st c = Inr st1" and
    l1: "writeStructs_loop cfg st1 schemas = Inr st'"
    by (auto split: sum.splits)
  note ih = Cons.IH [OF l1]
  note st = step_Inr [OF s1]
  have "buffer st' = buffer st @ type_blocks cfg (currentTable st) (c # schemas)"
    using ih st(1,2) by (simp add: type_blocks_Cons)
  moreover have "set (neededImports st') =
      set (neededImports st) \<union> aux_imports (c # schemas)"
    using ih st(3) by (auto simp: aux_imports_Cons)
  moreover have "distinct (neededImports st) \<longrightarrow> distinct (neededImports st')"
    using ih st(3) by (simp split: if_splits)
  moreover have "\<forall>x\<in>set (c # schemas). snd (snd (goType x)) = None"
    using ih st(4) by simp
  ultimately show ?case by blast
qed

lemma loop_first_error:
  assumes "\<forall>x\<in>set pre. snd (snd (goType x)) = None \<and>
             no_empty_segment (TableName x) \<and> no_empty_segment (ColumnName x)"
    and "snd (snd (goType u)) = Some e" and "no_empty_segment (TableName u)"
  shows "writeStructs_loop cfg st (pre @ u # post) = Inl (LogFatal e)"
  using assms(1)
proof (induction pre arbitrary: st)
  case Nil
  then show ?case by (simp add: step_error [OF assms(2,3)])
next
  case (Cons x pre)
  from Cons.prems obtain st1 where "writeStructs_step cfg st x = Inr st1"
    using step_returns [of x cfg st] by auto
  moreover from Cons.prems have "writeStructs_loop cfg st1 (pre @ u # post) = Inl (LogFatal e)"
    by (intro Cons.IH) simp
  ultimately show ?case by simp
qed

subsection \<open>The text and the sink\<close>

lemma writeStructs_header_Inr:
  assumes "writeStructs_header cfg ord schemas = Inr text"
  shows "\<exists>imports. distinct imports \<and> set imports = aux_imports schemas \<and>
           text = header_section cfg ord imports @ type_blocks cfg '''' schemas @ ''}'' \<and>
           (\<forall>c\<in>set schemas. snd (snd (goType c)) = None)"
proof -
  from assms obtain st where
    l: "writeStructs_loop cfg \<lparr>buffer = '''', currentTable = '''', neededImports = []\<rparr> schemas
          = Inr st"
    and t: "text = header_section cfg ord (neededImports st) @ (buffer st @ ''}'')"
    by (auto simp: writeStructs_header_def split: sum.splits)
  from loop_Inr [OF l] t show ?thesis
    by (intro exI [of _ "neededImports st"]) simp
qed

lemma header_section_import_block:
  assumes "valid_rangeOrder ord" and "distinct imports"
  shows "\<exists>ks. distinct ks \<and> set ks = set imports \<and>
           header_section cfg ord imports = ''package '' @ PkgName cfg @ [NL, NL] @ import_block ks"
proof (cases "imports = []")
  case True
  then show ?thesis
    by (intro exI [of _ "[]"]) (simp add: header_section_def import_block_def)
next
  case False
  from assms have d: "distinct (ord imports)" and s: "set (ord imports) = set imports"
    by (simp_all add: valid_rangeOrder_def)
  from False s have "ord imports \<noteq> []" by auto
  with False d s show ?thesis
    by (intro exI [of _ "ord imports"]) (simp add: header_section_def import_block_def)
qed

lemma writeStructs_abort:
  "writeStructs_header (config g) (rangeOrder env) schemas = Inl a \<Longrightarrow>
   writeStructs g env w schemas = (Inl a, w)"
  by (simp add: writeStructs_def)

lemma writeStructs_return:
  assumes "writeStructs g env w schemas = (Inr r, w')"
  shows "\<exists>text. writeStructs_header (config g) (rangeOrder env) schemas = Inr text \<and>
           r = (int (length text), None) \<and>
           w' = (if output_flag g = ''-'' then w\<lparr>stdout := stdout w @ text\<rparr>
                 else w\<lparr>files := (files w)(output_flag g \<mapsto> text)\<rparr>)"
proof -
  from assms obtain tx where
    r: "writeStructs_header (config g) (rangeOrder env) schemas = Inr tx"
    by (auto simp: writeStructs_def split: sum.splits)
  then obtain imps where "tx = header_section (config g) (rangeOrder env) imps @
      type_blocks (config g) '''' schemas @ ''}''"
    using writeStructs_header_Inr by blast
  then have "tx \<noteq> []" by (simp add: header_section_def)
  with assms r show ?thesis
    by (auto simp: writeStructs_def Let_def split: if_splits option.splits)
qed

subsection \<open>The claims about the emitter\<close>

text \<open>
  C5. The claim: an empty input succeeds and gives the package declaration only, with
  no import block and no type declaration. The run does succeed, and there is neither
  import block nor type declaration, but line 90 writes the closing brace of the last
  type block whether or not a block was opened (the brace between two blocks, line 63,
  is guarded by \<open>currentTable != ""\<close>): the text is the package declaration followed by
  a lone \<open>}\<close>, 20 bytes with the default package name.
\<close>

theorem writeStructs_empty_input:
  "writeStructs_header cfg ord [] = Inr (''package '' @ PkgName cfg @ [NL, NL] @ ''}'') \<and>
   writeStructs \<lparr>config = defaults, output_flag = ''-''\<rparr> env w [] =
     (Inr (20, None), w\<lparr>stdout := stdout w @ ''package DbStructs'' @ [NL, NL] @ ''}''\<rparr>)"
  by (simp add: writeStructs_def writeStructs_header_def header_section_def defaults_def)

text \<open>
  Runs with an unmappable column. If some column of the input has a data type outside
  the mapping table, the call of \<open>writeStructs\<close> does not return: the process ends, and
  the world (standard output and the files) is as it was, whatever was put together for
  earlier columns. The process ends in \<open>log.Fatal\<close> with the error of the first such
  column \<open>u\<close> when the loop gets as far as the call of \<open>goType\<close> for \<open>u\<close>: the names of
  the columns before \<open>u\<close> and the table name of \<open>u\<close> have no empty segment.
\<close>

lemma writeStructs_unmappable_aborts:
  assumes "c \<in> set schemas" and "DataType c \<notin> set mapping_table"
  shows "snd (writeStructs g env w schemas) = w \<and>
         isl (fst (writeStructs g env w schemas)) \<and>
         (\<forall>pre u post.
            schemas = pre @ u # post \<and>
            (\<forall>x\<in>set pre. DataType x \<in> set mapping_table \<and>
               no_empty_segment (TableName x) \<and> no_empty_segment (ColumnName x)) \<and>
            DataType u \<notin> set mapping_table \<and> no_empty_segment (TableName u) \<longrightarrow>
            fst (writeStructs g env w schemas) =
              Inl (LogFatal (ErrorString (''No compatible datatype for '' @ TableName u @
                ''.'' @ ColumnName u @ '' found''))))"
proof -
  have err: "snd (snd (goType c)) \<noteq> None"
    using assms(2) by (simp add: goType_unmapped_error)
  obtain a where a: "writeStructs_header (config g) (rangeOrder env) schemas = Inl a"
  proof (cases "writeStructs_header (config g) (rangeOrder env) schemas")
    case (Inl a)
    then show ?thesis by (rule that)
  next
    case (Inr tx)
    from writeStructs_header_Inr [OF Inr] assms(1) have "snd (snd (goType c)) = None"
      by blast
    with err show ?thesis by simp
  qed
  have w: "writeStructs g env w schemas = (Inl a, w)"
    by (rule writeStructs_abort [OF a])
  have "fst (writeStructs g env w schemas) =
          Inl (LogFatal (ErrorString (''No compatible datatype for '' @ TableName u @
            ''.'' @ ColumnName u @ '' found'')))"
    if s: "schemas = pre @ u # post"
      and pre: "\<forall>x\<in>set pre. DataType x \<in> set mapping_table \<and>
                 no_empty_segment (TableName x) \<and> no_empty_segment (ColumnName x)"
      and u: "DataType u \<notin> set mapping_table" and n: "no_empty_segment (TableName u)"
    for pre u post
  proof -
    from pre have p: "\<forall>x\<in>set pre. snd (snd (goType x)) = None \<and>
        no_empty_segment (TableName x) \<and> no_empty_segment (ColumnName x)"
      by (simp add: goType_mapped_no_error)
    have "writeStructs_loop (config g)
            \<lparr>buffer = '''', currentTable = '''', neededImports = []\<rparr> (pre @ u # post) =
          Inl (LogFatal (ErrorString (''No compatible datatype for '' @ TableName u @
            ''.'' @ ColumnName u @ '' found'')))"
      by (rule loop_first_error [OF p goType_unmapped_error [OF u] n])
    then show ?thesis
      by (simp add: s writeStructs_def writeStructs_header_def)
  qed
  with w show ?thesis by simp
qed

lemma writeStructs_unmappable_aborts_example:
  "example_column ''users'' ''prefs'' ''NO'' ''json'' \<in> set example_unmappable \<and>
   DataType (example_column ''users'' ''prefs'' ''NO'' ''json'') \<notin> set mapping_table \<and>
   snd (writeStructs example_globals example_environment example_world example_unmappable) =
     example_world \<and>
   isl (fst (writeStructs example_globals example_environment example_world
          example_unmappable)) \<and>
   example_unmappable =
     [example_column ''users'' ''id'' ''NO'' ''int''] @
     example_column ''users'' ''prefs'' ''NO'' ''json'' #
     [example_column ''users'' ''name'' ''YES'' ''varchar''] \<and>
   DataType (example_column ''users'' ''id'' ''NO'' ''int'') \<in> set mapping_table \<and>
   no_empty_segment ''users'' \<and> no_empty_segment ''id'' \<and>
   fst (writeStructs example_globals example_environment example_world example_unmappable) =
     Inl (LogFatal (ErrorString ''No compatible datatype for users.prefs found''))"
proof -
  have h1: "example_column ''users'' ''prefs'' ''NO'' ''json'' \<in> set example_unmappable"
    by (simp add: example_unmappable_def)
  have h2: "DataType (example_column ''users'' ''prefs'' ''NO'' ''json'') \<notin> set mapping_table"
    by (simp add: example_column_def mapping_table_def string_family_def blob_family_def
        temporal_family_def integer_family_def float_family_def)
  have h3: "example_unmappable =
     [example_column ''users'' ''id'' ''NO'' ''int''] @
     example_column ''users'' ''prefs'' ''NO'' ''json'' #
     [example_column ''users'' ''name'' ''YES'' ''varchar'']"
    by (simp add: example_unmappable_def)
  have h4: "DataType (example_column ''users'' ''id'' ''NO'' ''int'') \<in> set mapping_table"
    by (simp add: example_column_def mapping_table_def integer_family_def)
  have h5: "no_empty_segment ''users''" and h6: "no_empty_segment ''id''"
    by (simp_all add: no_empty_segment_def)
  have h7: "\<forall>x\<in>set [example_column ''users'' ''id'' ''NO'' ''int''].
      DataType x \<in> set mapping_table \<and>
      no_empty_segment (TableName x) \<and> no_empty_segment (ColumnName x)"
    using h4 h5 h6 by (simp add: example_column_def)
  have h8: "no_empty_segment (TableName (example_column ''users'' ''prefs'' ''NO'' ''json''))"
    using h5 by (simp add: example_column_def)
  note t = writeStructs_unmappable_aborts [OF h1 h2,
      of example_globals example_environment example_world]
  from t have t1:
    "snd (writeStructs example_globals example_environment example_world example_unmappable) =
       example_world"
    and t2: "isl (fst (writeStructs example_globals example_environment example_world
          example_unmappable))"
    by simp_all
  from t h3 h7 h2 h8 have
    "fst (writeStructs example_globals example_environment example_world example_unmappable) =
       Inl (LogFatal (ErrorString (''No compatible datatype for '' @
         TableName (example_column ''users'' ''prefs'' ''NO'' ''json'') @ ''.'' @
         ColumnName (example_column ''users'' ''prefs'' ''NO'' ''json'') @ '' found'')))"
    by blast
  then have t3:
    "fst (writeStructs example_globals example_environment example_world example_unmappable) =
       Inl (LogFatal (ErrorString ''No compatible datatype for users.prefs found''))"
    by (simp add: example_column_def)
  from h1 h2 t1 t2 h3 h4 h5 h6 t3 show ?thesis
    by blast
qed

text \<open>
  C6. The claim: on an input with an unmappable column the emitter aborts with that
  failure, the error of \<open>goType\<close>, and nothing reaches the sink. Nothing does reach the
  sink (\<open>writeStructs_unmappable_aborts\<close>), but the failure is another one when a name
  has an empty segment: line 66 formats the table name before line 69 calls \<open>goType\<close>,
  and line 78 formats the names of the earlier columns, so the index panic of
  \<open>formatName\<close> (see C4) ends the process before the error of the unmappable column is
  seen. Below, the only column of the table \<open>user_\<close> has the type \<open>json\<close>, for which
  \<open>goType\<close> returns its error; and the column \<open>a__b\<close> comes before the column of type
  \<open>json\<close>.
\<close>

theorem writeStructs_panic_before_unmappable:
  "DataType (example_column ''user_'' ''prefs'' ''NO'' ''json'') \<notin> set mapping_table \<and>
   goType (example_column ''user_'' ''prefs'' ''NO'' ''json'') =
     ('''', '''', Some (ErrorString ''No compatible datatype for user_.prefs found'')) \<and>
   writeStructs example_globals example_environment example_world
     [example_column ''user_'' ''prefs'' ''NO'' ''json''] =
     (Inl RuntimePanic, example_world) \<and>
   writeStructs example_globals example_environment example_world
     [example_column ''users'' ''id'' ''NO'' ''int'',
      example_column ''users'' ''a__b'' ''NO'' ''int'',
      example_column ''users'' ''prefs'' ''NO'' ''json''] =
     (Inl RuntimePanic, example_world)"
proof -
  have a: "DataType (example_column ''user_'' ''prefs'' ''NO'' ''json'') \<notin> set mapping_table"
    by (simp add: example_column_def mapping_table_def string_family_def blob_family_def
        temporal_family_def integer_family_def float_family_def)
  have b: "goType (example_column ''user_'' ''prefs'' ''NO'' ''json'') =
      ('''', '''', Some (ErrorString ''No compatible datatype for user_.prefs found''))"
    by (simp add: goType_def example_column_def)
  have c: "writeStructs_header (config example_globals) (rangeOrder example_environment)
      [example_column ''user_'' ''prefs'' ''NO'' ''json''] = Inl RuntimePanic"
    by code_simp
  have d: "writeStructs_header (config example_globals) (rangeOrder example_environment)
      [example_column ''users'' ''id'' ''NO'' ''int'',
       example_column ''users'' ''a__b'' ''NO'' ''int'',
       example_column ''users'' ''prefs'' ''NO'' ''json''] = Inl RuntimePanic"
    by code_simp
  from a b writeStructs_abort [OF c] writeStructs_abort [OF d] show ?thesis
    by simp
qed

text \<open>
  C7. When the emitter produces a text, the text is the package declaration, then the
  import block, then the type blocks; the import block lists, each on a line of its own,
  the names \<open>ks\<close>, which are without repetition and are exactly the aux imports that
  \<open>goType\<close> returned for the columns of the input; and the block is absent when there
  is none. The order of \<open>ks\<close> is that of the \<open>range\<close> over the map, any one that visits
  each key once.
\<close>

theorem import_block_exact:
  assumes "valid_rangeOrder ord" and "writeStructs_header cfg ord schemas = Inr text"
  shows "\<exists>ks. distinct ks \<and> set ks = aux_imports schemas \<and>
           text = ''package '' @ PkgName cfg @ [NL, NL] @
                  (if ks = [] then ''''
                   else ''import ('' @ [NL] @
                        concat (map (\<lambda>k. [TAB, DQUOTE] @ k @ [DQUOTE, NL]) ks) @
                        '')'' @ [NL, NL]) @
                  type_blocks cfg '''' schemas @ ''}''"
proof -
  from writeStructs_header_Inr [OF assms(2)] obtain imps where
    i: "distinct imps" "set imps = aux_imports schemas" and
    t: "text = header_section cfg ord imps @ type_blocks cfg '''' schemas @ ''}''"
    by blast
  from header_section_import_block [OF assms(1) i(1), of cfg] obtain ks where
    k: "distinct ks" "set ks = set imps" and
    h: "header_section cfg ord imps = ''package '' @ PkgName cfg @ [NL, NL] @ import_block ks"
    by blast
  from k i t h show ?thesis
    by (intro exI [of _ ks]) (simp add: import_block_def)
qed

theorem import_block_exact_witness:
  "valid_rangeOrder rev \<and>
   aux_imports example_users = {''database/sql'', ''time''} \<and>
   writeStructs_header defaults rev example_users =
     Inr (''package DbStructs'' @ [NL, NL] @
          ''import ('' @ [NL] @
          [TAB, DQUOTE] @ ''database/sql'' @ [DQUOTE, NL] @
          [TAB, DQUOTE] @ ''time'' @ [DQUOTE, NL] @
          '')'' @ [NL, NL] @
          type_blocks defaults '''' example_users @ ''}'') \<and>
   (\<exists>ks. distinct ks \<and> set ks = aux_imports example_users \<and>
      writeStructs_header defaults rev example_users =
        Inr (''package '' @ PkgName defaults @ [NL, NL] @
             (if ks = [] then ''''
              else ''import ('' @ [NL] @
                   concat (map (\<lambda>k. [TAB, DQUOTE] @ k @ [DQUOTE, NL]) ks) @
                   '')'' @ [NL, NL]) @
             type_blocks defaults '''' example_users @ ''}''))"
proof -
  have v: "valid_rangeOrder rev"
    by (simp add: valid_rangeOrder_def)
  have a: "aux_imports example_users = {''database/sql'', ''time''}"
    by (auto simp: aux_imports_def example_users_def example_column_def goType_def)
  have r: "writeStructs_header defaults rev example_users =
     Inr (''package DbStructs'' @ [NL, NL] @
          ''import ('' @ [NL] @
          [TAB, DQUOTE] @ ''database/sql'' @ [DQUOTE, NL] @
          [TAB, DQUOTE] @ ''time'' @ [DQUOTE, NL] @
          '')'' @ [NL, NL] @
          type_blocks defaults '''' example_users @ ''}'')"
    by code_simp
  from import_block_exact [OF v r] obtain ks where
    "distinct ks \<and> set ks = aux_imports example_users \<and>
     ''package DbStructs'' @ [NL, NL] @
          ''import ('' @ [NL] @
          [TAB, DQUOTE] @ ''database/sql'' @ [DQUOTE, NL] @
          [TAB, DQUOTE] @ ''time'' @ [DQUOTE, NL] @
          '')'' @ [NL, NL] @
          type_blocks defaults '''' example_users @ ''}'' =
     ''package '' @ PkgName defaults @ [NL, NL] @
             (if ks = [] then ''''
              else ''import ('' @ [NL] @
                   concat (map (\<lambda>k. [TAB, DQUOTE] @ k @ [DQUOTE, NL]) ks) @
                   '')'' @ [NL, NL]) @
             type_blocks defaults '''' example_users @ ''}''"
    by blast
  then have "\<exists>ks. distinct ks \<and> set ks = aux_imports example_users \<and>
      writeStructs_header defaults rev example_users =
        Inr (''package '' @ PkgName defaults @ [NL, NL] @
             (if ks = [] then ''''
              else ''import ('' @ [NL] @
                   concat (map (\<lambda>k. [TAB, DQUOTE] @ k @ [DQUOTE, NL]) ks) @
                   '')'' @ [NL, NL]) @
             type_blocks defaults '''' example_users @ ''}'')"
    unfolding r by blast
  with v a r show ?thesis by blast
qed

text \<open>
  C9. When the emitter produces a text, the text is a header (package declaration and
  import block), then for each column the text that precedes its field and its field
  line, then the closing brace. With an empty \<open>TagLabel\<close> every field line is a tab, the
  formatted column name, a space, the type and a newline: no annotation. With a
  non-empty \<open>TagLabel\<close> every field line carries, between the type and the newline, a
  tab and the annotation \<open>TagLabel:"ColumnName"\<close> in back quotes, with the column name
  as it is in the input, not its formatted form.
\<close>

theorem field_annotation:
  assumes "writeStructs_header cfg ord schemas = Inr text"
  shows "\<exists>imps.
    (TagLabel cfg = '''' \<longrightarrow>
       text = header_section cfg ord imps @
         concat (map (\<lambda>(p, c). block_open p (TableName c) @
                        [TAB] @ formatted (ColumnName c) @ '' '' @ fst (goType c) @ [NL])
                     (zip ('''' # map TableName schemas) schemas)) @ ''}'') \<and>
    (TagLabel cfg \<noteq> '''' \<longrightarrow>
       text = header_section cfg ord imps @
         concat (map (\<lambda>(p, c). block_open p (TableName c) @
                        [TAB] @ formatted (ColumnName c) @ '' '' @ fst (goType c) @
                        [TAB, BQUOTE] @ TagLabel cfg @ '':'' @ [DQUOTE] @ ColumnName c @
                        [DQUOTE, BQUOTE] @ [NL])
                     (zip ('''' # map TableName schemas) schemas)) @ ''}'')"
proof -
  from writeStructs_header_Inr [OF assms] obtain imps where
    t: "text = header_section cfg ord imps @ type_blocks cfg '''' schemas @ ''}''"
    by blast
  show ?thesis
    by (intro exI [of _ imps])
      (simp add: t type_blocks_def field_line_def annotation_def)
qed

theorem field_annotation_witness:
  "TagLabel defaults \<noteq> '''' \<and>
   writeStructs_header defaults rev example_orders =
     Inr (''package DbStructs'' @ [NL, NL] @ ''type Orders struct{'' @ [NL] @
          [TAB] @ ''OrderId int64'' @ [TAB, BQUOTE] @ ''db:'' @ [DQUOTE] @ ''order_id'' @
          [DQUOTE, BQUOTE, NL] @ ''}'') \<and>
   (\<exists>imps. writeStructs_header defaults rev example_orders =
      Inr (header_section defaults rev imps @
         concat (map (\<lambda>(p, c). block_open p (TableName c) @
                        [TAB] @ formatted (ColumnName c) @ '' '' @ fst (goType c) @
                        [TAB, BQUOTE] @ TagLabel defaults @ '':'' @ [DQUOTE] @ ColumnName c @
                        [DQUOTE, BQUOTE] @ [NL])
                     (zip ('''' # map TableName example_orders) example_orders)) @ ''}'')) \<and>
   TagLabel (defaults\<lparr>TagLabel := ''''\<rparr>) = '''' \<and>
   writeStructs_header (defaults\<lparr>TagLabel := ''''\<rparr>) rev example_orders =
     Inr (''package DbStructs'' @ [NL, NL] @ ''type Orders struct{'' @ [NL] @
          [TAB] @ ''OrderId int64'' @ [NL] @ ''}'') \<and>
   (\<exists>imps. writeStructs_header (defaults\<lparr>TagLabel := ''''\<rparr>) rev example_orders =
      Inr (header_section (defaults\<lparr>TagLabel := ''''\<rparr>) rev imps @
         concat (map (\<lambda>(p, c). block_open p (TableName c) @
                        [TAB] @ formatted (ColumnName c) @ '' '' @ fst (goType c) @ [NL])
                     (zip ('''' # map TableName example_orders) example_orders)) @ ''}''))"
proof -
  have l1: "TagLabel defaults \<noteq> ''''"
    by (simp add: defaults_def)
  have l2: "TagLabel (defaults\<lparr>TagLabel := ''''\<rparr>) = ''''"
    by simp
  have r1: "writeStructs_header defaults rev example_orders =
     Inr (''package DbStructs'' @ [NL, NL] @ ''type Orders struct{'' @ [NL] @
          [TAB] @ ''OrderId int64'' @ [TAB, BQUOTE] @ ''db:'' @ [DQUOTE] @ ''order_id'' @
          [DQUOTE, BQUOTE, NL] @ ''}'')"
    by code_simp
  have r2: "writeStructs_header (defaults\<lparr>TagLabel := ''''\<rparr>) rev example_orders =
     Inr (''package DbStructs'' @ [NL, NL] @ ''type Orders struct{'' @ [NL] @
          [TAB] @ ''OrderId int64'' @ [NL] @ ''}'')"
    by code_simp
  from field_annotation [OF r1] l1 have e1:
    "\<exists>imps. writeStructs_header defaults rev example_orders =
      Inr (header_section defaults rev imps @
         concat (map (\<lambda>(p, c). block_open p (TableName c) @
                        [TAB] @ formatted (ColumnName c) @ '' '' @ fst (goType c) @
                        [TAB, BQUOTE] @ TagLabel defaults @ '':'' @ [DQUOTE] @ ColumnName c @
                        [DQUOTE, BQUOTE] @ [NL])
                     (zip ('''' # map TableName example_orders) example_orders)) @ ''}'')"
    unfolding r1 by blast
  from field_annotation [OF r2] l2 have e2:
    "\<exists>imps. writeStructs_header (defaults\<lparr>TagLabel := ''''\<rparr>) rev example_orders =
      Inr (header_section (defaults\<lparr>TagLabel := ''''\<rparr>) rev imps @
         concat (map (\<lambda>(p, c). block_open p (TableName c) @
                        [TAB] @ formatted (ColumnName c) @ '' '' @ fst (goType c) @ [NL])
                     (zip ('''' # map TableName example_orders) example_orders)) @ ''}'')"
    unfolding r2 by blast
  from l1 l2 r1 r2 e1 e2 show ?thesis by blast
qed

end
